theory Spec2Isabelle
  imports Complex_Main "HOL-Library.Sublist"
begin

section \<open>Strings of the Python runtime\<close>

text \<open>
  A Python \<open>str\<close> is a sequence of Unicode code points, and the program matches
  Cyrillic keywords against class labels, so a string is modelled as the list of its
  code points. \<open>ascii\<close> embeds an ASCII literal.
\<close>

type_synonym ustring = "nat list"

definition ascii :: "string \<Rightarrow> ustring" where
  "ascii s = map of_char s"

text \<open>
  \<open>str.lower()\<close> on the ranges the configured keywords and the expected labels live in:
  Basic Latin, Latin-1 and the Cyrillic block. Code points outside these ranges are left
  as they are.
\<close>

definition lower_cp :: "nat \<Rightarrow> nat" where
  "lower_cp c =
     (if 65 \<le> c \<and> c \<le> 90 then c + 32
      else if 192 \<le> c \<and> c \<le> 222 \<and> c \<noteq> 215 then c + 32
      else if 1024 \<le> c \<and> c \<le> 1039 then c + 80
      else if 1040 \<le> c \<and> c \<le> 1071 then c + 32
      else c)"

definition py_lower :: "ustring \<Rightarrow> ustring" where
  "py_lower s = map lower_cp s"

text \<open>The code points for which \<open>str.isspace()\<close> holds; \<open>str.strip()\<close> removes them at both ends.\<close>

definition is_space :: "nat \<Rightarrow> bool" where
  "is_space c \<longleftrightarrow>
     (9 \<le> c \<and> c \<le> 13) \<or> (28 \<le> c \<and> c \<le> 32) \<or> c = 133 \<or> c = 160 \<or> c = 5760 \<or>
     (8192 \<le> c \<and> c \<le> 8202) \<or> c = 8232 \<or> c = 8233 \<or> c = 8239 \<or> c = 8287 \<or> c = 12288"

definition py_strip :: "ustring \<Rightarrow> ustring" where
  "py_strip s = rev (dropWhile is_space (rev (dropWhile is_space s)))"

text \<open>\<open>k in s\<close> for two strings: \<open>k\<close> occurs in \<open>s\<close> as a contiguous run.\<close>

fun py_in :: "ustring \<Rightarrow> ustring \<Rightarrow> bool" where
  "py_in k [] = (k = [])"
| "py_in k (c # cs) = (prefix k (c # cs) \<or> py_in k cs)"

text \<open>\<open>s.split(sep)\<close> with a one-character separator: never empty, keeps empty fields.\<close>

fun py_split :: "nat \<Rightarrow> ustring \<Rightarrow> ustring list" where
  "py_split sep [] = [[]]"
| "py_split sep (c # cs) =
     (if c = sep then [] # py_split sep cs
      else (case py_split sep cs of
              [] \<Rightarrow> [[c]]
            | w # ws \<Rightarrow> (c # w) # ws))"


section \<open>The pricing table and its resolver (bot/pricing.py)\<close>

record plan =
  plan_name :: ustring
  plan_price :: int
  plan_description :: ustring
  plan_keywords :: "ustring list"

definition oge_9 :: plan where
  "oge_9 = \<lparr>
     plan_name = [128175, 1054, 1043, 1069, 40, 57, 32, 1082, 1083, 1072, 1089, 1089, 41],
     plan_price = 5650,
     plan_description = [50, 32, 1095, 1072, 1089, 1072, 32, 47, 32, 49, 32, 1088, 1072, 1079, 32, 1074, 32, 1085, 1077, 1076, 1077, 1083, 1102],
     plan_keywords = [ascii ''9'', ascii ''oge'', [1086, 1075, 1101], [57, 32, 1082, 1083, 1072, 1089, 1089]]\<rparr>"

definition ege_base :: plan where
  "ege_base = \<lparr>
     plan_name = [128175, 1045, 1043, 1069, 32, 1041, 1072, 1079, 1072],
     plan_price = 5650,
     plan_description = [50, 32, 1095, 1072, 1089, 1072, 32, 47, 32, 49, 32, 1088, 1072, 1079, 32, 1074, 32, 1085, 1077, 1076, 1077, 1083, 1102],
     plan_keywords = [[1077, 1075, 1101, 32, 1073, 1072, 1079, 1072], ascii ''ege base'', [1073, 1072, 1079, 1072]]\<rparr>"

definition class_7 :: plan where
  "class_7 = \<lparr>
     plan_name = [128175, 55, 32, 1082, 1083, 1072, 1089, 1089],
     plan_price = 5650,
     plan_description = [50, 32, 1095, 1072, 1089, 1072, 32, 47, 32, 49, 32, 1088, 1072, 1079, 32, 1074, 32, 1085, 1077, 1076, 1077, 1083, 1102],
     plan_keywords = [ascii ''7'', [55, 32, 1082, 1083, 1072, 1089, 1089]]\<rparr>"

definition class_8 :: plan where
  "class_8 = \<lparr>
     plan_name = [128175, 56, 32, 1082, 1083, 1072, 1089, 1089, 32, 40, 1040, 1083, 1075, 1077, 1073, 1088, 1072, 32, 43, 32, 1043, 1077, 1086, 1084, 1077, 1090, 1088, 1080, 1103, 41],
     plan_price = 5650,
     plan_description = [50, 32, 1095, 1072, 1089, 1072, 32, 47, 32, 49, 32, 1088, 1072, 1079, 32, 1074, 32, 1085, 1077, 1076, 1077, 1083, 1102],
     plan_keywords = [ascii ''8'', [56, 32, 1082, 1083, 1072, 1089, 1089]]\<rparr>"

definition ege_profile :: plan where
  "ege_profile = \<lparr>
     plan_name = [128175, 1045, 1043, 1069, 32, 1055, 1088, 1086, 1092, 1080, 1083, 1100, 32, 49, 49, 32, 1082, 1083, 1072, 1089, 1089],
     plan_price = 7900,
     plan_description = [52, 32, 1095, 1072, 1089, 1072, 32, 1074, 32, 1085, 1077, 1076, 1077, 1083, 1102, 32, 43, 32, 1076, 1086, 1084, 46, 1079, 1072, 1076, 1072, 1085, 1080, 1103, 32, 43, 32, 1074, 1086, 1079, 1084, 1086, 1078, 1085, 1086, 32, 90, 111, 111, 109, 32, 1086, 1085, 1083, 1072, 1081, 1085, 32, 1079, 1072, 1085, 1103, 1090, 1080, 1077, 32, 49, 32, 1088, 1072, 1079, 47, 1085, 1077, 1076, 1077, 1083, 1102],
     plan_keywords = [ascii ''11'', [49, 49, 32, 1082, 1083, 1072, 1089, 1089], [1077, 1075, 1101, 32, 1087, 1088, 1086, 1092, 1080, 1083, 1100], ascii ''ege profile'', [1087, 1088, 1086, 1092, 1080, 1083, 1100]]\<rparr>"

definition class_10 :: plan where
  "class_10 = \<lparr>
     plan_name = [128175, 49, 48, 32, 1082, 1083, 1072, 1089, 1089],
     plan_price = 7000,
     plan_description = [51, 32, 1095, 1072, 1089, 1072, 32, 1074, 32, 1085, 1077, 1076, 1077, 1083, 1102],
     plan_keywords = [ascii ''10'', [49, 48, 32, 1082, 1083, 1072, 1089, 1089]]\<rparr>"

definition class_5_6 :: plan where
  "class_5_6 = \<lparr>
     plan_name = [128175, 53, 44, 32, 54, 32, 1082, 1083, 1072, 1089, 1089],
     plan_price = 3670,
     plan_description = [49, 32, 1095, 1072, 1089, 32, 47, 32, 49, 32, 1088, 1072, 1079, 32, 1074, 32, 1085, 1077, 1076, 1077, 1083, 1102],
     plan_keywords = [ascii ''5'', ascii ''6'', [53, 32, 1082, 1083, 1072, 1089, 1089], [54, 32, 1082, 1083, 1072, 1089, 1089]]\<rparr>"

definition university_course_1 :: plan where
  "university_course_1 = \<lparr>
     plan_name = [127891, 49, 32, 1082, 1091, 1088, 1089, 32, 1042, 1059, 1047, 1072],
     plan_price = 1,
     plan_description = [1057, 1090, 1091, 1076, 1077, 1085, 1090, 32, 49, 32, 1082, 1091, 1088, 1089, 1072, 32, 1042, 1059, 1047, 1072],
     plan_keywords = [[49, 32, 1082, 1091, 1088, 1089], ascii ''course_1'', ascii ''1'']\<rparr>"

definition university_course_2 :: plan where
  "university_course_2 = \<lparr>
     plan_name = [127891, 50, 32, 1082, 1091, 1088, 1089, 32, 1042, 1059, 1047, 1072],
     plan_price = 1,
     plan_description = [1057, 1090, 1091, 1076, 1077, 1085, 1090, 32, 50, 32, 1082, 1091, 1088, 1089, 1072, 32, 1042, 1059, 1047, 1072],
     plan_keywords = [[50, 32, 1082, 1091, 1088, 1089], ascii ''course_2'', ascii ''2'']\<rparr>"

definition university_course_3 :: plan where
  "university_course_3 = \<lparr>
     plan_name = [127891, 51, 32, 1082, 1091, 1088, 1089, 32, 1042, 1059, 1047, 1072],
     plan_price = 1,
     plan_description = [1057, 1090, 1091, 1076, 1077, 1085, 1090, 32, 51, 32, 1082, 1091, 1088, 1089, 1072, 32, 1042, 1059, 1047, 1072],
     plan_keywords = [[51, 32, 1082, 1091, 1088, 1089], ascii ''course_3'', ascii ''3'']\<rparr>"

definition university_course_4 :: plan where
  "university_course_4 = \<lparr>
     plan_name = [127891, 52, 32, 1082, 1091, 1088, 1089, 32, 1042, 1059, 1047, 1072],
     plan_price = 1,
     plan_description = [1057, 1090, 1091, 1076, 1077, 1085, 1090, 32, 52, 32, 1082, 1091, 1088, 1089, 1072, 32, 1042, 1059, 1047, 1072],
     plan_keywords = [[52, 32, 1082, 1091, 1088, 1089], ascii ''course_4'', ascii ''4'']\<rparr>"

definition university_course_5 :: plan where
  "university_course_5 = \<lparr>
     plan_name = [127891, 53, 32, 1082, 1091, 1088, 1089, 32, 1042, 1059, 1047, 1072],
     plan_price = 1,
     plan_description = [1057, 1090, 1091, 1076, 1077, 1085, 1090, 32, 53, 32, 1082, 1091, 1088, 1089, 1072, 32, 1042, 1059, 1047, 1072],
     plan_keywords = [[53, 32, 1082, 1091, 1088, 1089], ascii ''course_5'', ascii ''5'']\<rparr>"

definition university_course_6 :: plan where
  "university_course_6 = \<lparr>
     plan_name = [127891, 54, 32, 1082, 1091, 1088, 1089, 32, 1042, 1059, 1047, 1072],
     plan_price = 1,
     plan_description = [1057, 1090, 1091, 1076, 1077, 1085, 1090, 32, 54, 32, 1082, 1091, 1088, 1089, 1072, 32, 1042, 1059, 1047, 1072],
     plan_keywords = [[54, 32, 1082, 1091, 1088, 1089], ascii ''course_6'', ascii ''6'']\<rparr>"

text \<open>The dictionary literal, in insertion order, which is the order \<open>.items()\<close> iterates in.\<close>

definition PRICING_CONFIG :: "(ustring \<times> plan) list" where
  "PRICING_CONFIG =
     [(ascii ''oge_9'', oge_9),
      (ascii ''ege_base'', ege_base),
      (ascii ''class_7'', class_7),
      (ascii ''class_8'', class_8),
      (ascii ''ege_profile'', ege_profile),
      (ascii ''class_10'', class_10),
      (ascii ''class_5_6'', class_5_6),
      (ascii ''university_course_1'', university_course_1),
      (ascii ''university_course_2'', university_course_2),
      (ascii ''university_course_3'', university_course_3),
      (ascii ''university_course_4'', university_course_4),
      (ascii ''university_course_5'', university_course_5),
      (ascii ''university_course_6'', university_course_6)]"

text \<open>The dictionary \<open>get_price_by_class\<close> returns.\<close>

record price_info =
  pi_key :: ustring
  pi_name :: ustring
  pi_price :: int
  pi_description :: ustring

definition price_info_of :: "ustring \<Rightarrow> plan \<Rightarrow> price_info" where
  "price_info_of k p =
     \<lparr>pi_key = k, pi_name = plan_name p, pi_price = plan_price p, pi_description = plan_description p\<rparr>"

text \<open>The inner loop \<open>for keyword in price_data['keywords']\<close>: does some keyword hit?\<close>

fun keyword_hit :: "ustring \<Rightarrow> ustring list \<Rightarrow> bool" where
  "keyword_hit class_info_lower [] = False"
| "keyword_hit class_info_lower (keyword # rest) =
     (if py_in keyword class_info_lower then True else keyword_hit class_info_lower rest)"

text \<open>The outer loop \<open>for price_key, price_data in PRICING_CONFIG.items()\<close>, returning at the first hit.\<close>

fun scan_plans :: "ustring \<Rightarrow> (ustring \<times> plan) list \<Rightarrow> price_info option" where
  "scan_plans class_info_lower [] = None"
| "scan_plans class_info_lower ((price_key, price_data) # rest) =
     (if keyword_hit class_info_lower (plan_keywords price_data)
      then Some (price_info_of price_key price_data)
      else scan_plans class_info_lower rest)"

definition get_price_by_class :: "ustring \<Rightarrow> price_info option" where
  "get_price_by_class class_info =
     (if class_info = [] then None
      else scan_plans (py_strip (py_lower class_info)) PRICING_CONFIG)"

section \<open>Numbers read from text\<close>

text \<open>
  \<open>int(s)\<close> and \<open>Decimal(s)\<close> of the Python library, for ASCII digits. Both ignore
  surrounding whitespace and accept one leading sign; \<open>None\<close> stands for the exception
  (\<open>ValueError\<close> for \<open>int\<close>, \<open>decimal.InvalidOperation\<close> for \<open>Decimal\<close>). The
  handlers apply \<open>int\<close> only to fields of a string split at underscores, so the
  digit-grouping underscore of \<open>int\<close> cannot occur there. \<open>int\<close> does not take the
  separators U+001C to U+001F for whitespace, although \<open>str.strip()\<close> and
  \<open>Decimal\<close> do.
\<close>

definition is_digit :: "nat \<Rightarrow> bool" where
  "is_digit c \<longleftrightarrow> 48 \<le> c \<and> c \<le> 57"

definition digits_value :: "ustring \<Rightarrow> nat" where
  "digits_value ds = foldl (\<lambda>acc c. 10 * acc + (c - 48)) 0 ds"

definition split_sign :: "ustring \<Rightarrow> bool \<times> ustring" where
  "split_sign s =
     (case s of
        [] \<Rightarrow> (False, [])
      | c # cs \<Rightarrow> if c = 45 then (True, cs) else if c = 43 then (False, cs) else (False, s))"

definition signed_digits :: "ustring \<Rightarrow> int option" where
  "signed_digits s =
     (case split_sign s of
        (neg, ds) \<Rightarrow>
          if ds \<noteq> [] \<and> list_all is_digit ds
          then Some (if neg then - int (digits_value ds) else int (digits_value ds))
          else None)"

definition is_int_space :: "nat \<Rightarrow> bool" where
  "is_int_space c \<longleftrightarrow> is_space c \<and> (c < 28 \<or> 31 < c)"

definition py_int :: "ustring \<Rightarrow> int option" where
  "py_int s = signed_digits (rev (dropWhile is_int_space (rev (dropWhile is_int_space s))))"







section \<open>The stored data (bot/models.py)\<close>

text \<open>
  Modelled from the spec: the Django models \<open>User\<close>, \<open>Payment\<close>, \<open>PaymentHistory\<close> and
  \<open>AdminState\<close> live in bot/models.py, which is not among the sources. The records below
  carry the attributes the handlers read and write, with the meaning section 3 of the
  specification gives them. A student is identified by the platform user id
  (\<open>telegram_id\<close>, unique), a payment intent by the gateway's id
  (\<open>yookassa_payment_id\<close>, unique), so both tables are maps from that key; the payment
  history and the admin wait states are tables in insertion order. Money is an exact
  rational. Timestamps are left out.
\<close>

record user =
  full_name :: ustring
  course_or_class :: ustring
  class_number :: ustring
  balance :: rat
  is_admin :: bool
  is_registered :: bool

record payment =
  pay_user :: ustring
  pay_amount :: rat
  pay_status :: ustring
  pay_description :: ustring
  payment_month :: int
  payment_year :: int
  pay_pricing_plan :: ustring
  payment_method :: "(ustring \<times> ustring) list"

record payment_history =
  h_user :: ustring
  h_payment :: "ustring option"
  h_month :: int
  h_year :: int
  h_amount_paid :: rat
  h_pricing_plan :: ustring
  h_payment_type :: ustring
  h_status :: ustring

record admin_state =
  as_admin_id :: ustring
  as_state :: ustring
  as_student_id :: "ustring option"

record db =
  users :: "ustring \<rightharpoonup> user"
  payments :: "ustring \<rightharpoonup> payment"
  history :: "payment_history list"
  admin_states :: "admin_state list"

text \<open>
  Modelled from the spec: the defaults of the columns \<open>payment_type\<close> and \<open>status\<close> of
  \<open>PaymentHistory\<close>, which \<open>check_payment\<close> relies on when it creates a record without
  naming them. The specification lists the payment types card, balance and cash and says
  that a history record is always completed once written.
\<close>

definition default_payment_type :: ustring where
  "default_payment_type = ascii ''card''"

definition default_status :: ustring where
  "default_status = ascii ''completed''"

text \<open>
  Modelled from the spec: \<open>PaymentHistory.is_month_paid(user, month, year)\<close>, a method of
  the model class in bot/models.py. The specification's guard: a completed history record
  already exists for (student, month, year).
\<close>

definition is_month_paid :: "db \<Rightarrow> ustring \<Rightarrow> int \<Rightarrow> int \<Rightarrow> bool" where
  "is_month_paid st uid month year =
     list_ex (\<lambda>h. h_user h = uid \<and> h_month h = month \<and> h_year h = year \<and>
                   h_status h = ascii ''completed'') (history st)"

section \<open>What a handler answers\<close>

text \<open>
  A handler ends by sending one message to its caller, by letting an exception escape, or
  silently. Each constructor of \<open>reply\<close> is one message text of the source; its arguments
  are the values the text interpolates. Sending is assumed to succeed, and so is every
  write to the database: the model follows the exceptions the handlers' own code raises.
\<close>

datatype reply =
    Data_error
  | Processing_error
  | Month_already_paid ustring int
  | Payment_info_error
  | Payment_not_in_db
  | Payment_pending
  | Payment_canceled
  | Payment_status "ustring option"
  | Payment_confirmed rat ustring int
  | Price_error
  | Insufficient_funds rat rat
  | Balance_payment_done ustring int rat rat
  | No_admin_access
  | User_not_found
  | Bad_format
  | Bad_student_id
  | Student_not_found
  | Generic_error
  | Payment_marked ustring ustring ustring int rat
  | Amount_not_positive
  | Student_gone
  | Balance_credited rat rat

datatype exn = LookupError | DoesNotExist

datatype outcome = Reply reply | Raised exn | Silent

section \<open>The gateway success poll (bot/handlers/payments.py)\<close>

text \<open>What \<open>YooKassaClient.get_payment\<close> returns: the fields \<open>check_payment\<close> reads.\<close>

record payment_info =
  gw_status :: "ustring option"
  gw_payment_method :: "(ustring \<times> ustring) list option"

text \<open>
  \<open>check_payment\<close>. The table \<open>MONTH_NAMES\<close> (bot/keyboards.py) and the gateway client
  are not among the sources and are parameters: \<open>MONTH_NAMES\<close> as a partial map, where
  \<open>None\<close> is the failed subscript, \<open>get_payment\<close> as a function of the payment id, where
  \<open>None\<close> is the falsy answer. The caller is \<open>call.from_user.id\<close>, the text is
  \<open>call.data\<close>.
\<close>

definition commit_succeeded ::
  "(int \<rightharpoonup> ustring) \<Rightarrow> payment_info \<Rightarrow> ustring \<Rightarrow> ustring \<Rightarrow> int \<Rightarrow> int \<Rightarrow> db \<Rightarrow> outcome \<times> db"
where
  "commit_succeeded MONTH_NAMES info uid payment_id month year st =
     (case payments st payment_id of
        None \<Rightarrow> (Reply Payment_not_in_db, st)
      | Some p \<Rightarrow>
          let p' = p\<lparr>pay_status := ascii ''succeeded'',
                     payment_method := (case gw_payment_method info of None \<Rightarrow> [] | Some pm \<Rightarrow> pm)\<rparr>;
              st1 = st\<lparr>payments := (payments st)(payment_id \<mapsto> p')\<rparr>;
              st2 = st1\<lparr>history := history st1 @
                      [\<lparr>h_user = uid, h_payment = Some payment_id, h_month = month, h_year = year,
                        h_amount_paid = pay_amount p', h_pricing_plan = pay_pricing_plan p',
                        h_payment_type = default_payment_type, h_status = default_status\<rparr>]\<rparr>
          in (case MONTH_NAMES month of
                None \<Rightarrow> (Raised LookupError, st2)
              | Some month_name \<Rightarrow> (Reply (Payment_confirmed (pay_amount p') month_name year), st2)))"

definition check_payment ::
  "(int \<rightharpoonup> ustring) \<Rightarrow> (ustring \<Rightarrow> payment_info option) \<Rightarrow> ustring \<Rightarrow> ustring \<Rightarrow> db \<Rightarrow> outcome \<times> db"
where
  "check_payment MONTH_NAMES get_payment uid data st =
     (let parts = py_split 95 data in
      if length parts \<noteq> 5 then (Reply Data_error, st)
      else
        let payment_id = parts ! 2 in
        case py_int (parts ! 3) of
          None \<Rightarrow> (Reply Processing_error, st)
        | Some month \<Rightarrow>
        case py_int (parts ! 4) of
          None \<Rightarrow> (Reply Processing_error, st)
        | Some year \<Rightarrow>
        case users st uid of
          None \<Rightarrow> (Reply Processing_error, st)
        | Some u \<Rightarrow>
        if is_month_paid st uid month year then
          (case MONTH_NAMES month of
             None \<Rightarrow> (Raised LookupError, st)
           | Some month_name \<Rightarrow> (Reply (Month_already_paid month_name year), st))
        else
        case get_payment payment_id of
          None \<Rightarrow> (Reply Payment_info_error, st)
        | Some info \<Rightarrow>
        if gw_status info = Some (ascii ''succeeded'') then
          commit_succeeded MONTH_NAMES info uid payment_id month year st
        else if gw_status info = Some (ascii ''pending'') then (Reply Payment_pending, st)
        else if gw_status info = Some (ascii ''canceled'') then (Reply Payment_canceled, st)
        else (Reply (Payment_status (gw_status info)), st))"

section \<open>Payment from the balance (bot/handlers/payments_old.py)\<close>

definition select_balance_payment_month ::
  "(int \<rightharpoonup> ustring) \<Rightarrow> ustring \<Rightarrow> ustring \<Rightarrow> db \<Rightarrow> outcome \<times> db"
where
  "select_balance_payment_month MONTH_NAMES uid data st =
     (let parts = py_split 95 data in
      if length parts \<noteq> 5 then (Reply Data_error, st)
      else
        case py_int (parts ! 3) of
          None \<Rightarrow> (Reply Processing_error, st)
        | Some month \<Rightarrow>
        case py_int (parts ! 4) of
          None \<Rightarrow> (Reply Processing_error, st)
        | Some year \<Rightarrow>
        case users st uid of
          None \<Rightarrow> (Reply Processing_error, st)
        | Some u \<Rightarrow>
        if is_month_paid st uid month year then
          (case MONTH_NAMES month of
             None \<Rightarrow> (Raised LookupError, st)
           | Some month_name \<Rightarrow> (Reply (Month_already_paid month_name year), st))
        else
        case get_price_by_class (course_or_class u) of
          None \<Rightarrow> (Reply Price_error, st)
        | Some info \<Rightarrow>
        let amount = of_int (pi_price info) in
        if balance u < amount then (Reply (Insufficient_funds amount (balance u)), st)
        else
          let u' = u\<lparr>balance := balance u - amount\<rparr>;
              st1 = st\<lparr>users := (users st)(uid \<mapsto> u')\<rparr>;
              st2 = st1\<lparr>history := history st1 @
                      [\<lparr>h_user = uid, h_payment = None, h_month = month, h_year = year,
                        h_amount_paid = amount, h_pricing_plan = pi_key info,
                        h_payment_type = ascii ''balance'', h_status = ascii ''completed''\<rparr>]\<rparr>
          in (case MONTH_NAMES month of
                None \<Rightarrow> (Raised LookupError, st2)
              | Some month_name \<Rightarrow>
                  (Reply (Balance_payment_done month_name year amount (balance u')), st2)))"

section \<open>The administrator's handlers (bot/handlers/admin/admin.py)\<close>

text \<open>
  The decorator \<open>admin_permission_callback\<close>: the caller must be a stored user with the
  admin flag; an unknown caller is answered, not raised.
\<close>

definition admin_permission_callback ::
  "(ustring \<Rightarrow> db \<Rightarrow> outcome \<times> db) \<Rightarrow> ustring \<Rightarrow> ustring \<Rightarrow> db \<Rightarrow> outcome \<times> db"
where
  "admin_permission_callback func caller data st =
     (case users st caller of
        None \<Rightarrow> (Reply User_not_found, st)
      | Some u \<Rightarrow> if \<not> is_admin u then (Reply No_admin_access, st) else func data st)"

text \<open>
  The body of \<open>handle_admin_mark_payment\<close>. Every exception raised in it is caught by
  \<open>except Exception\<close> and answered with the generic error message: the missing sixth
  field (\<open>parts[5]\<close>) and the \<open>int\<close> conversions of month and year, which the source
  evaluates as arguments of \<open>PaymentHistory.objects.create\<close>, after \<open>student.save()\<close>.
\<close>

definition fallback_class_name :: ustring where
  "fallback_class_name =
     [1089, 1090, 1072, 1085, 1076, 1072, 1088, 1090, 1085, 1099, 1081, 32, 1090, 1072, 1088, 1080, 1092]"

definition lesson_price_of :: "user \<Rightarrow> int \<times> ustring" where
  "lesson_price_of student =
     (case get_price_by_class (class_number student) of
        Some info \<Rightarrow> (pi_price info, pi_name info)
      | None \<Rightarrow> (5000, fallback_class_name))"

definition admin_mark_payment :: "ustring \<Rightarrow> db \<Rightarrow> outcome \<times> db" where
  "admin_mark_payment data st =
     (let parts = py_split 95 data in
      if length parts < 5 then (Reply Bad_format, st)
      else if length parts < 6 then (Reply Generic_error, st)
      else
        let student_id = py_strip (parts ! 3);
            month = py_strip (parts ! 4);
            year = py_strip (parts ! 5) in
        if student_id = [] \<or> student_id \<in> set [ascii ''student'', ascii ''admin'', ascii ''user'']
        then (Reply Bad_student_id, st)
        else
        case users st student_id of
          None \<Rightarrow> (Reply Student_not_found, st)
        | Some student \<Rightarrow>
        case lesson_price_of student of
          (lesson_price, class_name) \<Rightarrow>
        let student' = student\<lparr>balance := balance student + of_int lesson_price\<rparr>;
            st1 = st\<lparr>users := (users st)(student_id \<mapsto> student')\<rparr> in
        case py_int month of
          None \<Rightarrow> (Reply Generic_error, st1)
        | Some m \<Rightarrow>
        case py_int year of
          None \<Rightarrow> (Reply Generic_error, st1)
        | Some y \<Rightarrow>
          (Reply (Payment_marked class_name month year lesson_price (balance student')),
           st1\<lparr>history := history st1 @
                 [\<lparr>h_user = student_id, h_payment = None, h_month = m, h_year = y,
                   h_amount_paid = of_int lesson_price, h_pricing_plan = class_name,
                   h_payment_type = ascii ''cash'', h_status = ascii ''completed''\<rparr>]\<rparr>))"

definition handle_admin_mark_payment :: "ustring \<Rightarrow> ustring \<Rightarrow> db \<Rightarrow> outcome \<times> db" where
  "handle_admin_mark_payment = admin_permission_callback admin_mark_payment"




section \<open>The specification's notions, and a stored state to run the handlers on\<close>

text \<open>
  The specification's matching policy, in its own words: a plan matches a label when one
  of its keywords is a substring of the label.
\<close>

definition plan_matches :: "ustring \<Rightarrow> plan \<Rightarrow> bool" where
  "plan_matches label p \<longleftrightarrow> (\<exists>kw \<in> set (plan_keywords p). sublist kw label)"

text \<open>The completed history records of one (student, month, year).\<close>

definition completed_records :: "db \<Rightarrow> ustring \<Rightarrow> int \<Rightarrow> int \<Rightarrow> payment_history list" where
  "completed_records st uid month year =
     filter (\<lambda>h. h_user h = uid \<and> h_month h = month \<and> h_year h = year \<and>
                  h_status h = ascii ''completed'') (history st)"

text \<open>
  A small database: student 42 of class "9 klass" (in Cyrillic) with a balance of 6000,
  administrator 1 waiting for an amount for student 42, and one pending payment intent
  of student 42 for March 2024.
\<close>

definition klass_9 :: ustring where
  "klass_9 = [57, 32, 1082, 1083, 1072, 1089, 1089]"

definition student_42 :: user where
  "student_42 = \<lparr>full_name = ascii ''Ivan'', course_or_class = klass_9, class_number = klass_9,
                  balance = 6000, is_admin = False, is_registered = True\<rparr>"

definition admin_1 :: user where
  "admin_1 = \<lparr>full_name = ascii ''Admin'', course_or_class = [], class_number = [],
               balance = 0, is_admin = True, is_registered = True\<rparr>"

definition intent_march :: payment where
  "intent_march = \<lparr>pay_user = ascii ''42'', pay_amount = 5650, pay_status = ascii ''pending'',
                    pay_description = [], payment_month = 3, payment_year = 2024,
                    pay_pricing_plan = ascii ''oge_9'', payment_method = []\<rparr>"

definition wait_row :: admin_state where
  "wait_row = \<lparr>as_admin_id = ascii ''1'', as_state = ascii ''waiting_balance_amount'',
                as_student_id = Some (ascii ''42'')\<rparr>"

definition db0 :: db where
  "db0 = \<lparr>users = [ascii ''42'' \<mapsto> student_42, ascii ''1'' \<mapsto> admin_1],
           payments = [ascii ''p-1'' \<mapsto> intent_march],
           history = [],
           admin_states = [wait_row]\<rparr>"

text \<open>The same database after March 2024 of student 42 has been paid in cash.\<close>

definition cash_march :: payment_history where
  "cash_march = \<lparr>h_user = ascii ''42'', h_payment = None, h_month = 3, h_year = 2024,
                  h_amount_paid = 5650, h_pricing_plan = plan_name oge_9,
                  h_payment_type = ascii ''cash'', h_status = ascii ''completed''\<rparr>"

definition db_paid :: db where
  "db_paid = db0\<lparr>history := [cash_march]\<rparr>"

text \<open>A table of month names with the entries the examples use, and two gateway answers.\<close>

definition month_names :: "int \<rightharpoonup> ustring" where
  "month_names = [3 \<mapsto> [1052, 1072, 1088, 1090], 4 \<mapsto> [1040, 1087, 1088, 1077, 1083, 1100]]"

definition gateway_says :: "ustring \<Rightarrow> ustring \<Rightarrow> payment_info option" where
  "gateway_says status payment_id = Some \<lparr>gw_status = Some status, gw_payment_method = None\<rparr>"

section \<open>The pricing resolver returns the first matching plan\<close>

lemma py_in_sublist: "py_in k s \<longleftrightarrow> sublist k s"
  by (induction s) (simp_all add: sublist_Cons_right)

lemma keyword_hit_iff: "keyword_hit s kws \<longleftrightarrow> (\<exists>kw \<in> set kws. sublist kw s)"
  by (induction kws) (simp_all add: py_in_sublist)

lemma keyword_hit_plan_matches: "keyword_hit s (plan_keywords p) \<longleftrightarrow> plan_matches s p"
  by (simp add: keyword_hit_iff plan_matches_def)


lemma scan_plans_first:
  "\<forall>(k, p) \<in> set before. \<not> plan_matches s p \<Longrightarrow> plan_matches s p \<Longrightarrow>
   scan_plans s (before @ (k, p) # after) = Some (price_info_of k p)"
  by (induction before) (auto simp: keyword_hit_plan_matches split: if_splits)

lemma scan_plans_Some_iff:
  "scan_plans s ps = Some d \<longleftrightarrow>
     (\<exists>before k p after. ps = before @ (k, p) # after \<and>
        (\<forall>(k', p') \<in> set before. \<not> plan_matches s p') \<and> plan_matches s p \<and>
        d = price_info_of k p)"
proof
  assume "scan_plans s ps = Some d"
  then show "\<exists>before k p after. ps = before @ (k, p) # after \<and>
        (\<forall>(k', p') \<in> set before. \<not> plan_matches s p') \<and> plan_matches s p \<and>
        d = price_info_of k p"
  proof (induction ps)
    case Nil
    then show ?case by simp
  next
    case (Cons kp ps)
    obtain k p where kp: "kp = (k, p)" by (cases kp)
    show ?case
    proof (cases "plan_matches s p")
      case True
      with Cons.prems kp have "d = price_info_of k p"
        by (simp add: keyword_hit_plan_matches)
      with True kp have "kp # ps = [] @ (k, p) # ps \<and>
        (\<forall>(k', p') \<in> set []. \<not> plan_matches s p') \<and> plan_matches s p \<and> d = price_info_of k p"
        by simp
      then show ?thesis by blast
    next
      case False
      with Cons.prems kp have "scan_plans s ps = Some d"
        by (simp add: keyword_hit_plan_matches)
      from Cons.IH [OF this] obtain before k' p' after where
        *: "ps = before @ (k', p') # after" "\<forall>(k'', p'') \<in> set before. \<not> plan_matches s p''"
           "plan_matches s p'" "d = price_info_of k' p'"
        by blast
      with False kp have "kp # ps = (kp # before) @ (k', p') # after \<and>
        (\<forall>(k'', p'') \<in> set (kp # before). \<not> plan_matches s p'') \<and> plan_matches s p' \<and>
        d = price_info_of k' p'"
        by simp
      then show ?thesis by blast
    qed
  qed
next
  assume "\<exists>before k p after. ps = before @ (k, p) # after \<and>
        (\<forall>(k', p') \<in> set before. \<not> plan_matches s p') \<and> plan_matches s p \<and>
        d = price_info_of k p"
  then show "scan_plans s ps = Some d"
    using scan_plans_first by blast
qed

lemmas text_defs = py_lower_def lower_cp_def py_strip_def is_space_def ascii_def





text \<open>
  C10. A label that, lower-cased and trimmed, contains "1" and matches no keyword of the
  seven plans listed before \<open>university_course_1\<close> resolves to that plan, whose price is
  1; "1 klass" (in Cyrillic) is such a label.
\<close>

theorem label_with_1_resolves_to_course_1:
  assumes "class_info \<noteq> []"
    and "sublist (ascii ''1'') (py_strip (py_lower class_info))"
    and "\<forall>p \<in> set [oge_9, ege_base, class_7, class_8, ege_profile, class_10, class_5_6].
           \<not> plan_matches (py_strip (py_lower class_info)) p"
  shows "get_price_by_class class_info =
           Some (price_info_of (ascii ''university_course_1'') university_course_1) \<and>
         pi_key (price_info_of (ascii ''university_course_1'') university_course_1) =
           ascii ''university_course_1'' \<and>
         pi_price (price_info_of (ascii ''university_course_1'') university_course_1) = 1"
proof -
  let ?s = "py_strip (py_lower class_info)"
  have "ascii ''1'' \<in> set (plan_keywords university_course_1)"
    by (simp add: university_course_1_def)
  with assms(2) have hit: "plan_matches ?s university_course_1"
    unfolding plan_matches_def by blast
  have "scan_plans ?s PRICING_CONFIG =
          Some (price_info_of (ascii ''university_course_1'') university_course_1)"
    using assms(3) hit
    by (simp add: PRICING_CONFIG_def keyword_hit_plan_matches)
  with assms(1) have "get_price_by_class class_info =
          Some (price_info_of (ascii ''university_course_1'') university_course_1)"
    by (simp add: get_price_by_class_def)
  then show ?thesis
    by (simp add: price_info_of_def university_course_1_def)
qed

theorem label_with_1_resolves_to_course_1_witness:
  "get_price_by_class [49, 32, 1082, 1083, 1072, 1089, 1089] =
     Some (price_info_of (ascii ''university_course_1'') university_course_1) \<and>
   pi_key (price_info_of (ascii ''university_course_1'') university_course_1) =
     ascii ''university_course_1'' \<and>
   pi_price (price_info_of (ascii ''university_course_1'') university_course_1) = 1"
proof -
  let ?l = "[49, 32, 1082, 1083, 1072, 1089, 1089] :: ustring"
  have s: "py_strip (py_lower ?l) = ?l"
    by (simp add: text_defs)
  have ne: "?l \<noteq> []" by simp
  have one: "sublist (ascii ''1'') (py_strip (py_lower ?l))"
    unfolding s py_in_sublist [symmetric] by (simp add: ascii_def)
  have none: "\<forall>p \<in> set [oge_9, ege_base, class_7, class_8, ege_profile, class_10, class_5_6].
           \<not> plan_matches (py_strip (py_lower ?l)) p"
    unfolding s keyword_hit_plan_matches [symmetric]
    by (simp add: oge_9_def ege_base_def class_7_def class_8_def ege_profile_def class_10_def
          class_5_6_def ascii_def)
  from label_with_1_resolves_to_course_1 [OF ne one none] show ?thesis .
qed

section \<open>Evaluating the parsers and the example database\<close>

lemmas int_defs =
  py_int_def is_int_space_def signed_digits_def split_sign_def digits_value_def is_digit_def
  py_strip_def is_space_def ascii_def

lemma py_int_3: "py_int (ascii ''3'') = Some 3"
  by (simp add: int_defs)

lemma py_int_4: "py_int (ascii ''4'') = Some 4"
  by (simp add: int_defs)

lemma py_int_2024: "py_int (ascii ''2024'') = Some 2024"
  by (simp add: int_defs)

lemma py_int_x: "py_int (ascii ''x'') = None"
  by (simp add: int_defs)

lemma klass_9_resolves:
  "get_price_by_class klass_9 = Some (price_info_of (ascii ''oge_9'') oge_9)"
  by (simp add: klass_9_def get_price_by_class_def PRICING_CONFIG_def text_defs oge_9_def)

lemma users_db0_42: "users db0 (ascii ''42'') = Some student_42"
  by (simp add: db0_def ascii_def)

lemma users_db0_1: "users db0 (ascii ''1'') = Some admin_1"
  by (simp add: db0_def ascii_def)

lemma split_balance_data:
  "py_split 95 (ascii ''pay_balance_month_3_2024'') =
     [ascii ''pay'', ascii ''balance'', ascii ''month'', ascii ''3'', ascii ''2024'']"
  by (simp add: ascii_def)

lemma split_check_data:
  "py_split 95 (ascii ''check_payment_p-1_3_2024'') =
     [ascii ''check'', ascii ''payment'', ascii ''p-1'', ascii ''3'', ascii ''2024'']"
  by (simp add: ascii_def)

lemma split_check_data_april:
  "py_split 95 (ascii ''check_payment_p-1_4_2024'') =
     [ascii ''check'', ascii ''payment'', ascii ''p-1'', ascii ''4'', ascii ''2024'']"
  by (simp add: ascii_def)

lemma split_mark_data:
  "py_split 95 (ascii ''admin_mark_payment_42_3_2024'') =
     [ascii ''admin'', ascii ''mark'', ascii ''payment'', ascii ''42'', ascii ''3'', ascii ''2024'']"
  by (simp add: ascii_def)

lemma split_mark_data_x:
  "py_split 95 (ascii ''admin_mark_payment_42_x_2024'') =
     [ascii ''admin'', ascii ''mark'', ascii ''payment'', ascii ''42'', ascii ''x'', ascii ''2024'']"
  by (simp add: ascii_def)

lemma py_strip_ascii_word:
  "py_strip (ascii ''42'') = ascii ''42''"
  "py_strip (ascii ''3'') = ascii ''3''"
  "py_strip (ascii ''x'') = ascii ''x''"
  "py_strip (ascii ''2024'') = ascii ''2024''"
  by (simp_all add: py_strip_def is_space_def ascii_def)

lemma not_paid_db0: "\<not> is_month_paid db0 uid month year"
  by (simp add: is_month_paid_def db0_def)

lemma paid_db_paid: "is_month_paid db_paid (ascii ''42'') 3 2024"
  by (simp add: is_month_paid_def db_paid_def cash_march_def)

lemma py_int_strip_3: "py_int (py_strip (ascii ''3'')) = Some 3"
  by (simp add: py_strip_ascii_word py_int_3)

lemma py_int_strip_2024: "py_int (py_strip (ascii ''2024'')) = Some 2024"
  by (simp add: py_strip_ascii_word py_int_2024)

lemma py_int_strip_x: "py_int (py_strip (ascii ''x'')) = None"
  by (simp add: py_strip_ascii_word py_int_x)

lemma users_db0_strip_42: "users db0 (py_strip (ascii ''42'')) = Some student_42"
  by (simp add: py_strip_ascii_word users_db0_42)

lemma id_42_ok:
  "py_strip (ascii ''42'') \<noteq> []"
  "py_strip (ascii ''42'') \<notin> {ascii ''student'', ascii ''admin'', ascii ''user''}"
  unfolding py_strip_ascii_word by (simp_all add: ascii_def)

lemma split_mark_data_1:
  "py_split 95 (ascii ''admin_mark_payment_1_3_2024'') =
     [ascii ''admin'', ascii ''mark'', ascii ''payment'', ascii ''1'', ascii ''3'', ascii ''2024'']"
  by (simp add: ascii_def)

lemma py_strip_ascii_1: "py_strip (ascii ''1'') = ascii ''1''"
  by (simp add: py_strip_def is_space_def ascii_def)

lemma users_db0_strip_1: "users db0 (py_strip (ascii ''1'')) = Some admin_1"
  by (simp add: py_strip_ascii_1 users_db0_1)

lemma id_1_ok:
  "py_strip (ascii ''1'') \<noteq> []"
  "py_strip (ascii ''1'') \<notin> {ascii ''student'', ascii ''admin'', ascii ''user''}"
  unfolding py_strip_ascii_1 by (simp_all add: ascii_def)

section \<open>Payment from the balance\<close>

text \<open>
  C3. A balance payment of a month that is not yet paid, with resolved price P and balance
  B: if P \<le> B the balance becomes B - P and exactly one history record is appended, of
  type balance, completed, of amount P; if B < P the answer is the insufficient-funds
  message carrying P and B, and nothing changes.
\<close>

theorem balance_payment_debits_or_rejects:
  assumes "py_split 95 data = [p0, p1, p2, ms, ys]"
    and "py_int ms = Some month"
    and "py_int ys = Some year"
    and "users st uid = Some u"
    and "\<not> is_month_paid st uid month year"
    and "get_price_by_class (course_or_class u) = Some info"
  shows "(of_int (pi_price info) \<le> balance u \<longrightarrow>
            snd (select_balance_payment_month MN uid data st) =
              st\<lparr>users := (users st)(uid \<mapsto> u\<lparr>balance := balance u - of_int (pi_price info)\<rparr>),
                 history := history st @
                   [\<lparr>h_user = uid, h_payment = None, h_month = month, h_year = year,
                     h_amount_paid = of_int (pi_price info), h_pricing_plan = pi_key info,
                     h_payment_type = ascii ''balance'', h_status = ascii ''completed''\<rparr>]\<rparr>) \<and>
         (balance u < of_int (pi_price info) \<longrightarrow>
            select_balance_payment_month MN uid data st =
              (Reply (Insufficient_funds (of_int (pi_price info)) (balance u)), st))"
  using assms
  by (simp add: select_balance_payment_month_def Let_def split: option.split)

theorem balance_payment_debits_or_rejects_witness:
  "snd (select_balance_payment_month month_names (ascii ''42'')
          (ascii ''pay_balance_month_3_2024'') db0) =
     db0\<lparr>users := (users db0)(ascii ''42'' \<mapsto> student_42\<lparr>balance := 350\<rparr>),
         history :=
           [\<lparr>h_user = ascii ''42'', h_payment = None, h_month = 3, h_year = 2024,
             h_amount_paid = 5650, h_pricing_plan = ascii ''oge_9'',
             h_payment_type = ascii ''balance'', h_status = ascii ''completed''\<rparr>]\<rparr> \<and>
   select_balance_payment_month month_names (ascii ''42'') (ascii ''pay_balance_month_3_2024'')
       (db0\<lparr>users := (users db0)(ascii ''42'' \<mapsto> student_42\<lparr>balance := 100\<rparr>)\<rparr>) =
     (Reply (Insufficient_funds 5650 100),
      db0\<lparr>users := (users db0)(ascii ''42'' \<mapsto> student_42\<lparr>balance := 100\<rparr>)\<rparr>)"
proof -
  let ?poor = "db0\<lparr>users := (users db0)(ascii ''42'' \<mapsto> student_42\<lparr>balance := 100\<rparr>)\<rparr>"
  have price: "pi_price (price_info_of (ascii ''oge_9'') oge_9) = 5650"
    "pi_key (price_info_of (ascii ''oge_9'') oge_9) = ascii ''oge_9''"
    by (simp_all add: price_info_of_def oge_9_def)
  have rich: "get_price_by_class (course_or_class student_42) =
                Some (price_info_of (ascii ''oge_9'') oge_9)"
    using klass_9_resolves by (simp add: student_42_def)
  have poor_user: "users ?poor (ascii ''42'') = Some (student_42\<lparr>balance := 100\<rparr>)"
    by simp
  have poor_price: "get_price_by_class (course_or_class (student_42\<lparr>balance := 100\<rparr>)) =
                      Some (price_info_of (ascii ''oge_9'') oge_9)"
    using klass_9_resolves by (simp add: student_42_def)
  have poor_unpaid: "\<not> is_month_paid ?poor (ascii ''42'') 3 2024"
    by (simp add: is_month_paid_def db0_def)
  have bal: "balance student_42 = 6000" by (simp add: student_42_def)
  have hist: "history db0 = []" by (simp add: db0_def)
  from balance_payment_debits_or_rejects
         [OF split_balance_data py_int_3 py_int_2024 users_db0_42 not_paid_db0 rich,
          of month_names]
       balance_payment_debits_or_rejects
         [OF split_balance_data py_int_3 py_int_2024 poor_user poor_unpaid poor_price,
          of month_names]
  show ?thesis
    by (simp add: price bal hist)
qed

section \<open>The administrator's cash credit\<close>

lemma plan_prices_positive: "\<forall>(k, p) \<in> set PRICING_CONFIG. 0 < plan_price p"
  by (simp add: PRICING_CONFIG_def oge_9_def ege_base_def class_7_def class_8_def
        ege_profile_def class_10_def class_5_6_def university_course_1_def
        university_course_2_def university_course_3_def university_course_4_def
        university_course_5_def university_course_6_def)

lemma resolved_price_positive:
  assumes "get_price_by_class c = Some info"
  shows "0 < pi_price info"
proof -
  from assms have "scan_plans (py_strip (py_lower c)) PRICING_CONFIG = Some info"
    by (simp add: get_price_by_class_def split: if_splits)
  then obtain before k p after where
    "PRICING_CONFIG = before @ (k, p) # after" "info = price_info_of k p"
    unfolding scan_plans_Some_iff by blast
  then have "(k, p) \<in> set PRICING_CONFIG" "pi_price info = plan_price p"
    by (simp_all add: price_info_of_def in_set_conv_decomp, blast)
  with plan_prices_positive show ?thesis by auto
qed

lemma lesson_price_positive: "0 < fst (lesson_price_of student)"
  by (simp add: lesson_price_of_def resolved_price_positive split: option.split)

lemma admin_mark_payment_commits:
  assumes "users st caller = Some adm" and "is_admin adm"
    and "py_split 95 data = p0 # p1 # p2 # sid # ms # ys # more_parts"
    and "py_strip sid \<noteq> []"
    and "py_strip sid \<notin> {ascii ''student'', ascii ''admin'', ascii ''user''}"
    and "users st (py_strip sid) = Some student"
    and "py_int (py_strip ms) = Some m" and "py_int (py_strip ys) = Some y"
  shows "handle_admin_mark_payment caller data st =
           (Reply (Payment_marked (snd (lesson_price_of student)) (py_strip ms) (py_strip ys)
                     (fst (lesson_price_of student))
                     (balance student + of_int (fst (lesson_price_of student)))),
            st\<lparr>users := (users st)(py_strip sid \<mapsto>
                   student\<lparr>balance := balance student + of_int (fst (lesson_price_of student))\<rparr>),
               history := history st @
                 [\<lparr>h_user = py_strip sid, h_payment = None, h_month = m, h_year = y,
                   h_amount_paid = of_int (fst (lesson_price_of student)),
                   h_pricing_plan = snd (lesson_price_of student),
                   h_payment_type = ascii ''cash'', h_status = ascii ''completed''\<rparr>]\<rparr>)"
  using assms
  by (simp add: handle_admin_mark_payment_def admin_permission_callback_def
        admin_mark_payment_def Let_def split: prod.split)

lemma admin_mark_payment_month_fails:
  assumes "users st caller = Some adm" and "is_admin adm"
    and "py_split 95 data = p0 # p1 # p2 # sid # ms # ys # more_parts"
    and "py_strip sid \<noteq> []"
    and "py_strip sid \<notin> {ascii ''student'', ascii ''admin'', ascii ''user''}"
    and "users st (py_strip sid) = Some student"
    and "py_int (py_strip ms) = None"
  shows "handle_admin_mark_payment caller data st =
           (Reply Generic_error,
            st\<lparr>users := (users st)(py_strip sid \<mapsto>
                   student\<lparr>balance := balance student + of_int (fst (lesson_price_of student))\<rparr>)\<rparr>)"
  using assms
  by (simp add: handle_admin_mark_payment_def admin_permission_callback_def
        admin_mark_payment_def Let_def split: prod.split)

lemma lesson_price_student_42: "lesson_price_of student_42 = (5650, plan_name oge_9)"
  using klass_9_resolves
  by (simp add: lesson_price_of_def student_42_def price_info_of_def oge_9_def)

lemma is_admin_admin_1: "is_admin admin_1"
  by (simp add: admin_1_def)

text \<open>
  C5. The cash credit of a stored student, on well-formed callback data, raises the
  student's balance by the lesson price and appends one completed history record of type
  cash, of that amount, for the month and year of the callback. The lesson price and the
  plan label are the resolved plan's price and name; when the resolver finds no plan they
  are 5000 and the fallback label. The price is positive, so the balance is never
  lowered. For the class "9 klass" (in Cyrillic) the price is 5650.
\<close>

theorem admin_cash_credit:
  assumes "users st caller = Some adm" and "is_admin adm"
    and "py_split 95 data = p0 # p1 # p2 # sid # ms # ys # more_parts"
    and "py_strip sid \<noteq> []"
    and "py_strip sid \<notin> {ascii ''student'', ascii ''admin'', ascii ''user''}"
    and "users st (py_strip sid) = Some student"
    and "py_int (py_strip ms) = Some m" and "py_int (py_strip ys) = Some y"
  shows "snd (handle_admin_mark_payment caller data st) =
           st\<lparr>users := (users st)(py_strip sid \<mapsto>
                  student\<lparr>balance := balance student + of_int (fst (lesson_price_of student))\<rparr>),
              history := history st @
                [\<lparr>h_user = py_strip sid, h_payment = None, h_month = m, h_year = y,
                  h_amount_paid = of_int (fst (lesson_price_of student)),
                  h_pricing_plan = snd (lesson_price_of student),
                  h_payment_type = ascii ''cash'', h_status = ascii ''completed''\<rparr>]\<rparr> \<and>
         (\<forall>info. get_price_by_class (class_number student) = Some info \<longrightarrow>
                 lesson_price_of student = (pi_price info, pi_name info)) \<and>
         (get_price_by_class (class_number student) = None \<longrightarrow>
                 lesson_price_of student = (5000, fallback_class_name)) \<and>
         0 < fst (lesson_price_of student) \<and>
         (class_number student = klass_9 \<longrightarrow> fst (lesson_price_of student) = 5650)"
proof -
  have nine: "class_number student = klass_9 \<longrightarrow> fst (lesson_price_of student) = 5650"
    using klass_9_resolves by (simp add: lesson_price_of_def price_info_of_def oge_9_def)
  have resolved: "\<forall>info. get_price_by_class (class_number student) = Some info \<longrightarrow>
                 lesson_price_of student = (pi_price info, pi_name info)"
    by (simp add: lesson_price_of_def)
  have fallback: "get_price_by_class (class_number student) = None \<longrightarrow>
                 lesson_price_of student = (5000, fallback_class_name)"
    by (simp add: lesson_price_of_def)
  from admin_mark_payment_commits [OF assms] nine resolved fallback lesson_price_positive
  show ?thesis by simp
qed

theorem admin_cash_credit_witness:
  "snd (handle_admin_mark_payment (ascii ''1'') (ascii ''admin_mark_payment_42_3_2024'') db0) =
     db0\<lparr>users := (users db0)(ascii ''42'' \<mapsto> student_42\<lparr>balance := 11650\<rparr>),
         history := [cash_march]\<rparr> \<and>
   lesson_price_of student_42 = (5650, plan_name oge_9) \<and>
   class_number student_42 = klass_9 \<and>
   lesson_price_of admin_1 = (5000, fallback_class_name)"
proof -
  have none: "get_price_by_class (class_number admin_1) = None"
    by (simp add: admin_1_def get_price_by_class_def)
  have bal: "balance student_42 = 6000" "class_number student_42 = klass_9"
    by (simp_all add: student_42_def)
  have hist: "history db0 = []" by (simp add: db0_def)
  from admin_cash_credit
         [OF users_db0_1 is_admin_admin_1 split_mark_data id_42_ok users_db0_strip_42
             py_int_strip_3 py_int_strip_2024]
       admin_cash_credit
         [OF users_db0_1 is_admin_admin_1 split_mark_data_1 id_1_ok users_db0_strip_1
             py_int_strip_3 py_int_strip_2024]
       none
  show ?thesis
    by (simp add: lesson_price_student_42 bal hist cash_march_def py_strip_ascii_word)
qed

text \<open>
  C1, at the input where the code departs from it: March 2024 of student 42 is already
  paid, and the administrator's cash credit for the same month is not rejected. It
  raises the balance again and appends a second completed record for that month.
\<close>

theorem paid_month_marked_again_by_admin:
  "is_month_paid db_paid (ascii ''42'') 3 2024 \<and>
   handle_admin_mark_payment (ascii ''1'') (ascii ''admin_mark_payment_42_3_2024'') db_paid =
     (Reply (Payment_marked (plan_name oge_9) (ascii ''3'') (ascii ''2024'') 5650 11650),
      db_paid\<lparr>users := (users db_paid)(ascii ''42'' \<mapsto> student_42\<lparr>balance := 11650\<rparr>),
             history := [cash_march, cash_march]\<rparr>) \<and>
   length (completed_records
             (snd (handle_admin_mark_payment (ascii ''1'')
                     (ascii ''admin_mark_payment_42_3_2024'') db_paid))
             (ascii ''42'') 3 2024) = 2"
proof -
  have u1: "users db_paid (ascii ''1'') = Some admin_1"
    and u42: "users db_paid (py_strip (ascii ''42'')) = Some student_42"
    unfolding py_strip_ascii_word by (simp_all add: db_paid_def db0_def ascii_def)
  have bal: "balance student_42 = 6000" by (simp add: student_42_def)
  have hist: "history db_paid = [cash_march]" by (simp add: db_paid_def)
  have run: "handle_admin_mark_payment (ascii ''1'') (ascii ''admin_mark_payment_42_3_2024'') db_paid =
     (Reply (Payment_marked (plan_name oge_9) (ascii ''3'') (ascii ''2024'') 5650 11650),
      db_paid\<lparr>users := (users db_paid)(ascii ''42'' \<mapsto> student_42\<lparr>balance := 11650\<rparr>),
             history := [cash_march, cash_march]\<rparr>)"
    using admin_mark_payment_commits
         [OF u1 is_admin_admin_1 split_mark_data id_42_ok u42
             py_int_strip_3 py_int_strip_2024]
    by (simp add: lesson_price_student_42 bal hist cash_march_def py_strip_ascii_word)
  have twice: "length (completed_records
             (snd (handle_admin_mark_payment (ascii ''1'')
                     (ascii ''admin_mark_payment_42_3_2024'') db_paid))
             (ascii ''42'') 3 2024) = 2"
    unfolding run by (simp add: completed_records_def cash_march_def)
  from paid_db_paid run twice show ?thesis by (intro conjI)
qed

text \<open>
  C2, at the input where the code departs from it: the month field of the callback data
  is not a number. The cash credit has saved the raised balance before it converts the
  month, so the conversion error leaves the balance raised by 5650 and no history record.
\<close>

theorem balance_saved_before_month_is_read:
  "handle_admin_mark_payment (ascii ''1'') (ascii ''admin_mark_payment_42_x_2024'') db0 =
     (Reply Generic_error,
      db0\<lparr>users := (users db0)(ascii ''42'' \<mapsto> student_42\<lparr>balance := 11650\<rparr>)\<rparr>) \<and>
   balance student_42 = 6000 \<and>
   history (snd (handle_admin_mark_payment (ascii ''1'')
                   (ascii ''admin_mark_payment_42_x_2024'') db0)) = history db0"
proof -
  have bal: "balance student_42 = 6000" by (simp add: student_42_def)
  have run: "handle_admin_mark_payment (ascii ''1'') (ascii ''admin_mark_payment_42_x_2024'') db0 =
     (Reply Generic_error,
      db0\<lparr>users := (users db0)(ascii ''42'' \<mapsto> student_42\<lparr>balance := 11650\<rparr>)\<rparr>)"
    using admin_mark_payment_month_fails
         [OF users_db0_1 is_admin_admin_1 split_mark_data_x id_42_ok
             users_db0_strip_42 py_int_strip_x]
    by (simp add: lesson_price_student_42 bal py_strip_ascii_word)
  have hist: "history (snd (handle_admin_mark_payment (ascii ''1'')
                   (ascii ''admin_mark_payment_42_x_2024'') db0)) = history db0"
    unfolding run by simp
  from run bal hist show ?thesis by (intro conjI)
qed

section \<open>The gateway success poll\<close>

lemma check_payment_commit:
  assumes "py_split 95 data = [p0, p1, pid, ms, ys]"
    and "py_int ms = Some month" and "py_int ys = Some year"
    and "users st uid = Some u"
    and "\<not> is_month_paid st uid month year"
    and "get_payment pid = Some info"
    and "gw_status info = Some (ascii ''succeeded'')"
    and "payments st pid = Some p"
  shows "snd (check_payment MN get_payment uid data st) =
           st\<lparr>payments := (payments st)(pid \<mapsto>
                  p\<lparr>pay_status := ascii ''succeeded'',
                    payment_method := (case gw_payment_method info of None \<Rightarrow> [] | Some pm \<Rightarrow> pm)\<rparr>),
              history := history st @
                [\<lparr>h_user = uid, h_payment = Some pid, h_month = month, h_year = year,
                  h_amount_paid = pay_amount p, h_pricing_plan = pay_pricing_plan p,
                  h_payment_type = default_payment_type, h_status = default_status\<rparr>]\<rparr>"
  using assms
  by (simp add: check_payment_def commit_succeeded_def Let_def split: option.split)

lemma check_payment_paid:
  assumes "py_split 95 data = [p0, p1, pid, ms, ys]"
    and "py_int ms = Some month" and "py_int ys = Some year"
    and "users st uid = Some u"
    and "is_month_paid st uid month year"
  shows "snd (check_payment MN get_payment uid data st) = st"
    and "MN month = Some month_name \<Longrightarrow>
         check_payment MN get_payment uid data st = (Reply (Month_already_paid month_name year), st)"
  using assms
  by (simp_all add: check_payment_def Let_def split: option.split)

lemma balance_payment_paid:
  assumes "py_split 95 data = [p0, p1, p2, ms, ys]"
    and "py_int ms = Some month" and "py_int ys = Some year"
    and "users st uid = Some u"
    and "is_month_paid st uid month year"
  shows "snd (select_balance_payment_month MN uid data st) = st"
    and "MN month = Some month_name \<Longrightarrow>
         select_balance_payment_month MN uid data st =
           (Reply (Month_already_paid month_name year), st)"
  using assms
  by (simp_all add: select_balance_payment_month_def Let_def split: option.split)

lemma length_5_parts:
  assumes "length parts = 5"
  shows "parts = [parts ! 0, parts ! 1, parts ! 2, parts ! 3, parts ! 4]"
proof -
  from assms obtain a b c d e where "parts = [a, b, c, d, e]"
    by (auto simp: eval_nat_numeral length_Suc_conv)
  then show ?thesis by simp
qed

lemma check_payment_history_changed:
  assumes "history (snd (check_payment MN get_payment uid data st)) \<noteq> history st"
  shows "\<exists>p0 p1 pid ms ys month year u info p.
           py_split 95 data = [p0, p1, pid, ms, ys] \<and> py_int ms = Some month \<and>
           py_int ys = Some year \<and> users st uid = Some u \<and>
           \<not> is_month_paid st uid month year \<and> get_payment pid = Some info \<and>
           gw_status info = Some (ascii ''succeeded'') \<and> payments st pid = Some p"
proof -
  let ?parts = "py_split 95 data"
  from assms have len: "length ?parts = 5"
    by (auto simp: check_payment_def Let_def split: if_splits)
  note parts = length_5_parts [OF len]
  from assms len obtain month where m: "py_int (?parts ! 3) = Some month"
    by (cases "py_int (?parts ! 3)") (auto simp: check_payment_def Let_def)
  from assms len m obtain year where y: "py_int (?parts ! 4) = Some year"
    by (cases "py_int (?parts ! 4)") (auto simp: check_payment_def Let_def)
  from assms len m y obtain u where u: "users st uid = Some u"
    by (cases "users st uid") (auto simp: check_payment_def Let_def)
  from assms len m y u have np: "\<not> is_month_paid st uid month year"
    by (auto simp: check_payment_def Let_def split: option.splits)
  from assms len m y u np obtain info where i: "get_payment (?parts ! 2) = Some info"
    by (cases "get_payment (?parts ! 2)") (auto simp: check_payment_def Let_def)
  from assms len m y u np i have s: "gw_status info = Some (ascii ''succeeded'')"
    by (auto simp: check_payment_def Let_def split: if_splits)
  from assms len m y u np i s obtain p where p: "payments st (?parts ! 2) = Some p"
    by (cases "payments st (?parts ! 2)")
       (auto simp: check_payment_def commit_succeeded_def Let_def)
  from parts m y u np i s p show ?thesis by blast
qed

lemma paid_after_append:
  "is_month_paid
     (st\<lparr>payments := ps, history := history st @
         [\<lparr>h_user = uid, h_payment = x, h_month = month, h_year = year,
           h_amount_paid = a, h_pricing_plan = pl,
           h_payment_type = t, h_status = default_status\<rparr>]\<rparr>) uid month year"
  by (simp add: is_month_paid_def default_status_def)

lemma unpaid_no_completed_records:
  "\<not> is_month_paid st uid month year \<Longrightarrow> completed_records st uid month year = []"
  by (simp add: is_month_paid_def completed_records_def list_ex_iff filter_empty_conv)

text \<open>
  C8. When the poll passes its checks and the gateway reports a status other than
  succeeded, the stored state is returned as it was; pending and canceled are answered
  with their fixed messages, any other status (also a missing one) is handed to the
  caller in the status message.
\<close>

theorem check_payment_other_status_changes_nothing:
  assumes "py_split 95 data = [p0, p1, pid, ms, ys]"
    and "py_int ms = Some month" and "py_int ys = Some year"
    and "users st uid = Some u"
    and "\<not> is_month_paid st uid month year"
    and "get_payment pid = Some info"
    and "gw_status info \<noteq> Some (ascii ''succeeded'')"
  shows "check_payment MN get_payment uid data st =
           (Reply (if gw_status info = Some (ascii ''pending'') then Payment_pending
                   else if gw_status info = Some (ascii ''canceled'') then Payment_canceled
                   else Payment_status (gw_status info)), st)"
  using assms
  by (simp add: check_payment_def Let_def)

theorem check_payment_other_status_changes_nothing_witness:
  "check_payment month_names (gateway_says (ascii ''pending'')) (ascii ''42'')
       (ascii ''check_payment_p-1_3_2024'') db0 = (Reply Payment_pending, db0) \<and>
   check_payment month_names (gateway_says (ascii ''canceled'')) (ascii ''42'')
       (ascii ''check_payment_p-1_3_2024'') db0 = (Reply Payment_canceled, db0) \<and>
   check_payment month_names (gateway_says (ascii ''waiting_for_capture'')) (ascii ''42'')
       (ascii ''check_payment_p-1_3_2024'') db0 =
     (Reply (Payment_status (Some (ascii ''waiting_for_capture''))), db0)"
proof -
  have g: "gateway_says s (ascii ''p-1'') = Some \<lparr>gw_status = Some s, gw_payment_method = None\<rparr>"
    for s by (simp add: gateway_says_def)
  have ne: "gw_status \<lparr>gw_status = Some (ascii ''pending''), gw_payment_method = None\<rparr>
              \<noteq> Some (ascii ''succeeded'')"
    "gw_status \<lparr>gw_status = Some (ascii ''canceled''), gw_payment_method = None\<rparr>
              \<noteq> Some (ascii ''succeeded'')"
    "gw_status \<lparr>gw_status = Some (ascii ''waiting_for_capture''), gw_payment_method = None\<rparr>
              \<noteq> Some (ascii ''succeeded'')"
    by (simp_all add: ascii_def)
  from check_payment_other_status_changes_nothing
         [where get_payment = "gateway_says (ascii ''pending'')" and MN = month_names,
          OF split_check_data py_int_3 py_int_2024 users_db0_42 not_paid_db0 g ne(1)]
       check_payment_other_status_changes_nothing
         [where get_payment = "gateway_says (ascii ''canceled'')" and MN = month_names,
          OF split_check_data py_int_3 py_int_2024 users_db0_42 not_paid_db0 g ne(2)]
       check_payment_other_status_changes_nothing
         [where get_payment = "gateway_says (ascii ''waiting_for_capture'')" and MN = month_names,
          OF split_check_data py_int_3 py_int_2024 users_db0_42 not_paid_db0 g ne(3)]
  show ?thesis by (simp add: ascii_def)
qed

text \<open>
  C9. The month and year of the guard and of the history record are those of the
  callback data. When they differ from the month and year stored on the payment intent,
  the poll of a succeeded payment writes the record for the callback's month and year;
  the intent's own month is paid afterwards only if it was paid before.
\<close>

theorem check_payment_records_callback_month:
  assumes "py_split 95 data = [p0, p1, pid, ms, ys]"
    and "py_int ms = Some month" and "py_int ys = Some year"
    and "users st uid = Some u"
    and "\<not> is_month_paid st uid month year"
    and "get_payment pid = Some info"
    and "gw_status info = Some (ascii ''succeeded'')"
    and "payments st pid = Some p"
    and "(payment_month p, payment_year p) \<noteq> (month, year)"
  shows "history (snd (check_payment MN get_payment uid data st)) =
           history st @
             [\<lparr>h_user = uid, h_payment = Some pid, h_month = month, h_year = year,
               h_amount_paid = pay_amount p, h_pricing_plan = pay_pricing_plan p,
               h_payment_type = default_payment_type, h_status = default_status\<rparr>] \<and>
         is_month_paid (snd (check_payment MN get_payment uid data st)) uid month year \<and>
         (is_month_paid (snd (check_payment MN get_payment uid data st)) uid
              (payment_month p) (payment_year p) \<longleftrightarrow>
            is_month_paid st uid (payment_month p) (payment_year p))"
proof -
  note st' = check_payment_commit [where get_payment = get_payment and MN = MN, OF assms(1-8)]
  have hist: "history (snd (check_payment MN get_payment uid data st)) =
           history st @
             [\<lparr>h_user = uid, h_payment = Some pid, h_month = month, h_year = year,
               h_amount_paid = pay_amount p, h_pricing_plan = pay_pricing_plan p,
               h_payment_type = default_payment_type, h_status = default_status\<rparr>]"
    unfolding st' by simp
  have paid: "is_month_paid (snd (check_payment MN get_payment uid data st)) uid month year"
    unfolding st' by (rule paid_after_append)
  have other: "is_month_paid (snd (check_payment MN get_payment uid data st)) uid
              (payment_month p) (payment_year p) \<longleftrightarrow>
            is_month_paid st uid (payment_month p) (payment_year p)"
    using assms(9) unfolding is_month_paid_def hist by auto
  from hist paid other show ?thesis by (intro conjI)
qed

theorem check_payment_records_callback_month_witness:
  "history (snd (check_payment month_names (gateway_says (ascii ''succeeded'')) (ascii ''42'')
                   (ascii ''check_payment_p-1_4_2024'') db0)) =
     [\<lparr>h_user = ascii ''42'', h_payment = Some (ascii ''p-1''), h_month = 4, h_year = 2024,
       h_amount_paid = 5650, h_pricing_plan = ascii ''oge_9'',
       h_payment_type = default_payment_type, h_status = default_status\<rparr>] \<and>
   payment_month intent_march = 3 \<and>
   \<not> is_month_paid (snd (check_payment month_names (gateway_says (ascii ''succeeded''))
                          (ascii ''42'') (ascii ''check_payment_p-1_4_2024'') db0))
        (ascii ''42'') 3 2024"
proof -
  have g: "gateway_says (ascii ''succeeded'') (ascii ''p-1'') =
             Some \<lparr>gw_status = Some (ascii ''succeeded''), gw_payment_method = None\<rparr>"
    by (simp add: gateway_says_def)
  have s: "gw_status \<lparr>gw_status = Some (ascii ''succeeded''), gw_payment_method = None\<rparr> =
             Some (ascii ''succeeded'')"
    by simp
  have p: "payments db0 (ascii ''p-1'') = Some intent_march"
    by (simp add: db0_def)
  have d: "(payment_month intent_march, payment_year intent_march) \<noteq> (4, 2024)"
    by (simp add: intent_march_def)
  have i: "payment_month intent_march = 3" "payment_year intent_march = 2024"
    "pay_amount intent_march = 5650" "pay_pricing_plan intent_march = ascii ''oge_9''"
    by (simp_all add: intent_march_def)
  have h: "history db0 = []" by (simp add: db0_def)
  from check_payment_records_callback_month
         [where get_payment = "gateway_says (ascii ''succeeded'')" and MN = month_names,
          OF split_check_data_april py_int_4 py_int_2024 users_db0_42 not_paid_db0 g s p d]
  show ?thesis
    using not_paid_db0 [of "ascii ''42''" 3 2024] by (simp add: i h)
qed

text \<open>
  C4. When a poll has committed a history record, a second poll with the same callback
  data, whatever the gateway answers then, returns the state as the first poll left it:
  the record the first poll appended is the only completed record of that student, month
  and year.
\<close>

theorem check_payment_second_poll_writes_nothing:
  assumes "check_payment MN get_payment uid data st = (out, st1)"
    and "history st1 \<noteq> history st"
  shows "snd (check_payment MN get_payment' uid data st1) = st1 \<and>
         (\<exists>r. history st1 = history st @ [r] \<and> h_user r = uid \<and>
              completed_records st1 uid (h_month r) (h_year r) = [r] \<and>
              completed_records (snd (check_payment MN get_payment' uid data st1))
                 uid (h_month r) (h_year r) = [r])"
proof -
  from assms have "history (snd (check_payment MN get_payment uid data st)) \<noteq> history st"
    by simp
  from check_payment_history_changed [OF this] obtain p0 p1 pid ms ys month year u info p where
    c: "py_split 95 data = [p0, p1, pid, ms, ys]" "py_int ms = Some month"
       "py_int ys = Some year" "users st uid = Some u"
       "\<not> is_month_paid st uid month year" "get_payment pid = Some info"
       "gw_status info = Some (ascii ''succeeded'')" "payments st pid = Some p"
    by blast
  let ?r = "\<lparr>h_user = uid, h_payment = Some pid, h_month = month, h_year = year,
              h_amount_paid = pay_amount p, h_pricing_plan = pay_pricing_plan p,
              h_payment_type = default_payment_type, h_status = default_status\<rparr>"
  from check_payment_commit [where get_payment = get_payment and MN = MN, OF c] assms(1)
  have st1: "st1 = st\<lparr>payments := (payments st)(pid \<mapsto>
                  p\<lparr>pay_status := ascii ''succeeded'',
                    payment_method := (case gw_payment_method info of None \<Rightarrow> [] | Some pm \<Rightarrow> pm)\<rparr>),
              history := history st @ [?r]\<rparr>"
    by simp
  have paid: "is_month_paid st1 uid month year"
    unfolding st1 by (rule paid_after_append)
  have u1: "users st1 uid = Some u"
    using c(4) by (simp add: st1)
  have second: "snd (check_payment MN get_payment' uid data st1) = st1"
    by (rule check_payment_paid(1) [OF c(1-3) u1 paid])
  have hist: "history st1 = history st @ [?r]"
    by (simp add: st1)
  have one: "completed_records st1 uid month year = [?r]"
    using unpaid_no_completed_records [OF c(5)]
    by (simp add: completed_records_def hist default_status_def)
  from second hist one show ?thesis
    by (intro conjI exI [of _ ?r]) simp_all
qed

theorem check_payment_second_poll_writes_nothing_witness:
  "history (snd (check_payment month_names (gateway_says (ascii ''succeeded'')) (ascii ''42'')
                   (ascii ''check_payment_p-1_3_2024'') db0)) \<noteq> history db0 \<and>
   snd (check_payment month_names (gateway_says (ascii ''succeeded'')) (ascii ''42'')
          (ascii ''check_payment_p-1_3_2024'')
          (snd (check_payment month_names (gateway_says (ascii ''succeeded'')) (ascii ''42'')
                  (ascii ''check_payment_p-1_3_2024'') db0))) =
     snd (check_payment month_names (gateway_says (ascii ''succeeded'')) (ascii ''42'')
            (ascii ''check_payment_p-1_3_2024'') db0)"
proof -
  let ?first = "check_payment month_names (gateway_says (ascii ''succeeded'')) (ascii ''42'')
                  (ascii ''check_payment_p-1_3_2024'') db0"
  have g: "gateway_says (ascii ''succeeded'') (ascii ''p-1'') =
             Some \<lparr>gw_status = Some (ascii ''succeeded''), gw_payment_method = None\<rparr>"
    by (simp add: gateway_says_def)
  have s: "gw_status \<lparr>gw_status = Some (ascii ''succeeded''), gw_payment_method = None\<rparr> =
             Some (ascii ''succeeded'')"
    by simp
  have p: "payments db0 (ascii ''p-1'') = Some intent_march"
    by (simp add: db0_def)
  have changed: "history (snd ?first) \<noteq> history db0"
    unfolding check_payment_commit
         [where get_payment = "gateway_says (ascii ''succeeded'')" and MN = month_names,
          OF split_check_data py_int_3 py_int_2024 users_db0_42 not_paid_db0 g s p]
    by simp
  have run: "?first = (fst ?first, snd ?first)" by simp
  from check_payment_second_poll_writes_nothing
         [where get_payment' = "gateway_says (ascii ''succeeded'')", OF run changed] changed
  show ?thesis by blast
qed

section \<open>The administrator's free-amount credit\<close>
















end
